theory Spec2Isabelle
  imports Complex_Main
begin

section \<open>Data model\<close>

text \<open>
  The engine of \<^verbatim>\<open>Option_trading.py\<close> is the pair of functions
  \<^verbatim>\<open>calculate_payoff\<close> and \<^verbatim>\<open>calculate_break_even\<close>.
  Prices, strikes and premiums are Python floats; they are modelled as exact reals, so
  a statement about \<^verbatim>\<open>calculate_payoff\<close> or \<^verbatim>\<open>calculate_break_even\<close> below is
  about the algebra of the formulas. Where rounding decides a property, for the straddle
  and strangle branches, it is modelled as well (\<open>straddle_strangle_branch\<close>).
  A strategy is the string the caller passes. The price grid is a NumPy array of floats,
  modelled as a list; NumPy's elementwise operations become \<open>map\<close> over it.
  Strikes, premiums and leg kinds are Python lists, indexed from 0.
\<close>

text \<open>
  The two exceptions the functions can raise: the \<^verbatim>\<open>ValueError\<close> of the explicit
  leg-count guards, with its message, and the \<^verbatim>\<open>IndexError\<close> of a list read out of
  range.
\<close>

datatype error = ValueError string | IndexError

text \<open>
  An entry of the list returned by \<^verbatim>\<open>calculate_break_even\<close>: a number, or one of
  the strings the function returns in place of a number.
\<close>

datatype bep = Price real | Marker string

text \<open>
  The strategy catalog (lines 8 to 95): the keys of the dictionary \<^verbatim>\<open>STRATEGIES\<close>,
  in its order. Its values are descriptive texts that neither function reads.
\<close>

definition STRATEGIES :: "string list" where
  "STRATEGIES =
     [''Long Call'', ''Long Put'', ''Covered Call'', ''Protective Put'', ''Iron Condor'',
      ''Bull Put Spread'', ''Bear Call Spread'', ''Long Straddle'', ''Short Straddle'',
      ''Long Strangle'', ''Short Strangle'', ''Butterfly Spread'', ''Iron Butterfly'',
      ''Collar'']"

section \<open>The payoff evaluator\<close>

text \<open>
  Lines 111 to 115: the loop over \<^verbatim>\<open>enumerate(strike_prices)\<close>. The index \<open>i\<close> is
  the position of the strike being visited, \<open>payoff\<close> the array accumulated so far.
  \<^verbatim>\<open>positions[i]\<close> is read for every strike, \<^verbatim>\<open>premiums[i]\<close> only for a leg
  whose kind is \<^verbatim>\<open>"Call"\<close> or \<^verbatim>\<open>"Put"\<close>; a read beyond the end of either list
  raises \<^verbatim>\<open>IndexError\<close>.
\<close>

fun leg_loop ::
  "real list \<Rightarrow> real list \<Rightarrow> string list \<Rightarrow> nat \<Rightarrow> real list \<Rightarrow> real list \<Rightarrow> error + real list"
where
  "leg_loop stock_prices premiums positions i [] payoff = Inr payoff"
| "leg_loop stock_prices premiums positions i (strike_price # rest) payoff =
     (if length positions \<le> i then Inl IndexError
      else if positions ! i = ''Call'' then
        (if length premiums \<le> i then Inl IndexError
         else leg_loop stock_prices premiums positions (Suc i) rest
                (map2 (+) payoff
                   (map (\<lambda>S. max (S - strike_price) 0 - premiums ! i) stock_prices)))
      else if positions ! i = ''Put'' then
        (if length premiums \<le> i then Inl IndexError
         else leg_loop stock_prices premiums positions (Suc i) rest
                (map2 (+) payoff
                   (map (\<lambda>S. max (strike_price - S) 0 - premiums ! i) stock_prices)))
      else leg_loop stock_prices premiums positions (Suc i) rest payoff)"

text \<open>
  What one pass of that loop adds at one underlying price \<open>S\<close>: the payoff of a
  bought call or a bought put, and nothing for any other leg kind. The loop is stated in
  closed form through it below.
\<close>

definition long_leg :: "string \<Rightarrow> real \<Rightarrow> real \<Rightarrow> real \<Rightarrow> real" where
  "long_leg kind strike_price premium S =
     (if kind = ''Call'' then max (S - strike_price) 0 - premium
      else if kind = ''Put'' then max (strike_price - S) 0 - premium
      else 0)"

text \<open>
  Lines 117 to 198: the chain of strategy branches that replaces the accumulated
  \<open>payoff\<close>. Each branch reads fixed indices of \<^verbatim>\<open>strike_prices\<close> and
  \<^verbatim>\<open>premiums\<close>; the guard in front of a branch is the \<^verbatim>\<open>IndexError\<close> of the
  largest index it reads. A strategy with no branch (or a stock-linked one with
  \<^verbatim>\<open>avg_stock_price\<close> \<^verbatim>\<open>None\<close>) keeps the accumulated \<open>payoff\<close>.
\<close>

definition strategy_branch ::
  "string \<Rightarrow> real list \<Rightarrow> real list \<Rightarrow> real list \<Rightarrow> real option \<Rightarrow> real list \<Rightarrow> error + real list"
where
  "strategy_branch strategy stock_prices strike_prices premiums avg_stock_price payoff =
     (if strategy = ''Covered Call'' \<and> avg_stock_price \<noteq> None then
        (if length strike_prices < 1 \<or> length premiums < 1 then Inl IndexError
         else Inr (map (\<lambda>S. (S - the avg_stock_price)
                         + min 0 (strike_prices ! 0 - S) + premiums ! 0) stock_prices))
      else if strategy = ''Protective Put'' \<and> avg_stock_price \<noteq> None then
        (if length strike_prices < 1 \<or> length premiums < 1 then Inl IndexError
         else Inr (map (\<lambda>S. (S - the avg_stock_price)
                         + max (strike_prices ! 0 - S) 0 - premiums ! 0) stock_prices))
      else if strategy = ''Iron Condor'' then
        (if length strike_prices < 4 \<or> length premiums < 4 then Inl IndexError
         else Inr (map (\<lambda>S. (- max 0 (S - strike_prices ! 0) + premiums ! 0)
                         + (max 0 (S - strike_prices ! 1) - premiums ! 1)
                         + (- max 0 (strike_prices ! 2 - S) + premiums ! 2)
                         + (max 0 (strike_prices ! 3 - S) - premiums ! 3)) stock_prices))
      else if strategy = ''Bull Put Spread'' then
        (if length strike_prices < 2 \<or> length premiums < 2 then Inl IndexError
         else Inr (map (\<lambda>S. (max 0 (strike_prices ! 1 - S) - premiums ! 1)
                         - (max 0 (strike_prices ! 0 - S) - premiums ! 0)) stock_prices))
      else if strategy = ''Bear Call Spread'' then
        (if length strike_prices < 2 \<or> length premiums < 2 then Inl IndexError
         else Inr (map (\<lambda>S. (max 0 (S - strike_prices ! 1) - premiums ! 1)
                         + (min 0 (strike_prices ! 0 - S) + premiums ! 0)) stock_prices))
      else if strategy = ''Long Straddle'' then
        (if length strike_prices < 1 \<or> length premiums < 2 then Inl IndexError
         else Inr (map (\<lambda>S. (max (S - strike_prices ! 0) 0 - premiums ! 0)
                         + (max (strike_prices ! 0 - S) 0 - premiums ! 1)) stock_prices))
      else if strategy = ''Short Straddle'' then
        (if length strike_prices < 1 \<or> length premiums < 2 then Inl IndexError
         else Inr (map (\<lambda>S. (min 0 (S - strike_prices ! 0) + premiums ! 0)
                         + (min 0 (strike_prices ! 0 - S) + premiums ! 1)) stock_prices))
      else if strategy = ''Long Strangle'' then
        (if length strike_prices < 2 \<or> length premiums < 2 then Inl IndexError
         else Inr (map (\<lambda>S. (max (S - strike_prices ! 0) 0 - premiums ! 0)
                         + (max (strike_prices ! 1 - S) 0 - premiums ! 1)) stock_prices))
      else if strategy = ''Short Strangle'' then
        (if length strike_prices < 2 \<or> length premiums < 2 then Inl IndexError
         else Inr (map (\<lambda>S. (- max 0 (S - strike_prices ! 0) + premiums ! 0)
                         + (- max 0 (strike_prices ! 1 - S) + premiums ! 1)) stock_prices))
      else if strategy = ''Iron Butterfly'' then
        (if length strike_prices < 4 \<or> length premiums < 4 then Inl IndexError
         else Inr (map (\<lambda>S. (- max 0 (S - strike_prices ! 2) + premiums ! 2)
                         + (- max 0 (strike_prices ! 1 - S) + premiums ! 1)
                         + (max 0 (S - strike_prices ! 3) - premiums ! 3)
                         + (max 0 (strike_prices ! 0 - S) - premiums ! 0)) stock_prices))
      else if strategy = ''Butterfly Spread'' then
        (if length strike_prices < 3 \<or> length premiums < 3 then Inl IndexError
         else Inr (map (\<lambda>S. (max (S - strike_prices ! 0) 0 - premiums ! 0)
                         + 2 * (min 0 (strike_prices ! 1 - S) + premiums ! 1)
                         + (max (S - strike_prices ! 2) 0 - premiums ! 2)) stock_prices))
      else if strategy = ''Collar'' \<and> avg_stock_price \<noteq> None then
        (if length strike_prices < 2 \<or> length premiums < 2 then Inl IndexError
         else Inr (map (\<lambda>S. (S - the avg_stock_price)
                         + (max 0 (strike_prices ! 0 - S) - premiums ! 0)
                         + (- max 0 (S - strike_prices ! 1) + premiums ! 1)) stock_prices))
      else Inr payoff)"

text \<open>
  \<^verbatim>\<open>calculate_payoff\<close> (lines 103 to 199): the array of zeros, the three leg-count
  guards on \<^verbatim>\<open>len(strike_prices)\<close>, the loop over the legs, the strategy branch.
\<close>

definition calculate_payoff ::
  "string \<Rightarrow> real list \<Rightarrow> real list \<Rightarrow> real list \<Rightarrow> string list \<Rightarrow> real option \<Rightarrow> error + real list"
where
  "calculate_payoff strategy stock_prices strike_prices premiums positions avg_stock_price =
     (if strategy \<in> set [''Iron Condor'', ''Iron Butterfly''] \<and> length strike_prices < 4 then
        Inl (ValueError (strategy @ '' requires 4 strike prices and 4 premiums.''))
      else if strategy \<in> set [''Bull Put Spread'', ''Bear Call Spread'', ''Collar'']
              \<and> length strike_prices < 2 then
        Inl (ValueError (strategy @ '' requires 2 strike prices and 2 premiums.''))
      else if strategy \<in> set [''Long Straddle'', ''Short Straddle'', ''Long Strangle'',
                                ''Short Strangle'']
              \<and> length strike_prices < 2 then
        Inl (ValueError (strategy @ '' requires 2 strike prices and 2 premiums.''))
      else
        (case leg_loop stock_prices premiums positions 0 strike_prices
                (map (\<lambda>S. 0) stock_prices) of
           Inl e \<Rightarrow> Inl e
         | Inr payoff \<Rightarrow>
             strategy_branch strategy stock_prices strike_prices premiums avg_stock_price payoff))"

section \<open>The break-even solver\<close>

text \<open>
  \<^verbatim>\<open>calculate_break_even\<close> (lines 202 to 286). Each branch reads fixed indices of
  its lists and raises \<^verbatim>\<open>IndexError\<close> when one is missing; the Bear Call Spread
  branch has a guard of its own on \<^verbatim>\<open>len(premiums)\<close>.
\<close>

definition calculate_break_even ::
  "string \<Rightarrow> real list \<Rightarrow> real list \<Rightarrow> real option \<Rightarrow> error + bep list"
where
  "calculate_break_even strategy strike_prices premiums avg_stock_price =
     (if strategy = ''Long Call'' then
        (if length strike_prices < 1 \<or> length premiums < 1 then Inl IndexError
         else Inr [Price (strike_prices ! 0 + premiums ! 0)])
      else if strategy = ''Long Put'' then
        (if length strike_prices < 1 \<or> length premiums < 1 then Inl IndexError
         else Inr [Price (strike_prices ! 0 - premiums ! 0)])
      else if strategy = ''Covered Call'' then
        (if avg_stock_price \<noteq> None then
           (if length premiums < 1 then Inl IndexError
            else Inr [Price (the avg_stock_price + premiums ! 0)])
         else Inr [Marker ''Avg Stock Price Required''])
      else if strategy = ''Protective Put'' then
        (if avg_stock_price \<noteq> None then
           (if length premiums < 1 then Inl IndexError
            else Inr [Price (the avg_stock_price - premiums ! 0)])
         else Inr [Marker ''Avg Stock Price Required''])
      else if strategy = ''Iron Condor'' then
        (if length premiums < 4 \<or> length strike_prices < 3 then Inl IndexError
         else (let net_credit = (premiums ! 0 + premiums ! 2) - (premiums ! 1 + premiums ! 3);
                   lower_bep = strike_prices ! 2 - net_credit;
                   upper_bep = strike_prices ! 0 + net_credit
               in Inr [Price lower_bep, Price upper_bep]))
      else if strategy = ''Bull Put Spread'' then
        (if length premiums < 2 \<or> length strike_prices < 1 then Inl IndexError
         else (let net_credit = premiums ! 0 - premiums ! 1;
                   break_even_point = strike_prices ! 0 - net_credit
               in Inr [Price break_even_point]))
      else if strategy = ''Bear Call Spread'' then
        (if length premiums < 2 then
           Inl (ValueError
             ''Bear Call Spread requires exactly two premiums (short call and long call).'')
         else if length strike_prices < 1 then Inl IndexError
         else (let net_premium = premiums ! 0 - premiums ! 1;
                   break_even_point = strike_prices ! 0 + net_premium
               in Inr [Price break_even_point]))
      else if strategy = ''Long Straddle'' then
        (if length premiums < 2 \<or> length strike_prices < 1 then Inl IndexError
         else (let total_premium = premiums ! 0 + premiums ! 1;
                   lower_bep = strike_prices ! 0 - total_premium;
                   upper_bep = strike_prices ! 0 + total_premium
               in Inr [Price lower_bep, Price upper_bep]))
      else if strategy = ''Short Straddle'' then
        (if length premiums < 2 \<or> length strike_prices < 1 then Inl IndexError
         else (let total_premium = premiums ! 0 + premiums ! 1;
                   lower_bep = strike_prices ! 0 - total_premium;
                   upper_bep = strike_prices ! 0 + total_premium
               in Inr [Price lower_bep, Price upper_bep]))
      else if strategy = ''Long Strangle'' then
        (if length premiums < 2 \<or> length strike_prices < 2 then Inl IndexError
         else (let total_premium = premiums ! 0 + premiums ! 1;
                   lower_bep = strike_prices ! 1 - total_premium;
                   upper_bep = strike_prices ! 0 + total_premium
               in Inr [Price lower_bep, Price upper_bep]))
      else if strategy = ''Short Strangle'' then
        (if length premiums < 2 \<or> length strike_prices < 2 then Inl IndexError
         else (let total_premium = premiums ! 0 + premiums ! 1;
                   lower_bep = strike_prices ! 1 - total_premium;
                   upper_bep = strike_prices ! 0 + total_premium
               in Inr [Price lower_bep, Price upper_bep]))
      else if strategy = ''Butterfly Spread'' then
        (if length premiums < 3 \<or> length strike_prices < 3 then Inl IndexError
         else (let net_premium = premiums ! 0 - (2 * premiums ! 1) + premiums ! 2;
                   lower_bep = strike_prices ! 0 + net_premium;
                   upper_bep = strike_prices ! 2 - net_premium
               in Inr [Price lower_bep, Price upper_bep]))
      else if strategy = ''Iron Butterfly'' then
        (if length premiums < 4 \<or> length strike_prices < 2 then Inl IndexError
         else (let total_premium = premiums ! 0 - premiums ! 1 - premiums ! 2 + premiums ! 3;
                   lower_bep = strike_prices ! 1 - total_premium;
                   upper_bep = strike_prices ! 1 + total_premium
               in Inr [Price lower_bep, Price upper_bep]))
      else if strategy = ''Collar'' then
        (if avg_stock_price \<noteq> None then
           (if length premiums < 2 then Inl IndexError
            else (let lower_bep = the avg_stock_price - premiums ! 0;
                      upper_bep = the avg_stock_price + premiums ! 1
                  in Inr [Price lower_bep, Price upper_bep]))
         else Inr [Marker ''Avg Stock Price Required''])
      else Inr [Marker ''N/A''])"

section \<open>Rounded arithmetic for the straddle and strangle branches\<close>

text \<open>
  The definitions above compute in exact reals. NumPy computes in IEEE binary64 and rounds
  the result of every addition and subtraction, and the Long and Short Straddle branches
  do not add the premiums to the same terms, so for these branches the rounding is
  modelled too. A binary64 number is modelled as the real it denotes, and an operation as
  the exact operation followed by a rounding function \<open>rnd\<close>; \<open>max\<close>, \<open>min\<close> and
  negation are exact.
\<close>

text \<open>
  \<open>binary64\<close> is that rounding: to the nearest number with a significand of 53 bits,
  ties to the even significand, with the gradual underflow of the format (no exponent
  below \<open>- 1022\<close>). \<open>bits n\<close> is the length of \<open>n\<close> in binary, \<open>exponent x\<close> the
  integer \<open>e\<close> with \<open>2 ^ e \<le> \<bar>x\<bar>\<close> and \<open>\<bar>x\<bar> < 2 ^ (e + 1)\<close>. Overflow to
  infinity has no counterpart in the reals and is left out: the model is that of results
  below \<open>2 ^ 1024\<close>.
\<close>

fun bits :: "nat \<Rightarrow> nat" where
  "bits n = (if n = 0 then 0 else Suc (bits (n div 2)))"

declare bits.simps [simp del]

definition exponent :: "real \<Rightarrow> int" where
  "exponent x =
     (if 1 \<le> \<bar>x\<bar> then int (bits (nat \<lfloor>\<bar>x\<bar>\<rfloor>)) - 1
      else - int (bits (nat (\<lceil>1 / \<bar>x\<bar>\<rceil> - 1))))"

definition pow2 :: "int \<Rightarrow> real" where
  "pow2 k = (if 0 \<le> k then 2 ^ nat k else 1 / 2 ^ nat (- k))"

definition round_even :: "real \<Rightarrow> int" where
  "round_even y =
     (let f = \<lfloor>y\<rfloor>; d = y - of_int f
      in if d < 1 / 2 then f else if 1 / 2 < d then f + 1 else if even f then f else f + 1)"

definition binary64 :: "real \<Rightarrow> real" where
  "binary64 x =
     (if x = 0 then 0
      else (let ulp = pow2 (max (exponent x) (- 1022) - 52)
            in of_int (round_even (x / ulp)) * ulp))"

text \<open>
  Lines 153 to 178 with every operation rounded: the Long Straddle, Short Straddle, Long
  Strangle and Short Strangle branches, in the order and with the operands of the source.
  With the identity for \<open>rnd\<close> these are the four branches of \<open>strategy_branch\<close>
  (\<open>straddle_strangle_branch_exact\<close> below).
\<close>

definition straddle_strangle_branch ::
  "(real \<Rightarrow> real) \<Rightarrow> string \<Rightarrow> real list \<Rightarrow> real list \<Rightarrow> real list \<Rightarrow> real list \<Rightarrow> error + real list"
where
  "straddle_strangle_branch rnd strategy stock_prices strike_prices premiums payoff =
     (if strategy = ''Long Straddle'' then
        (if length strike_prices < 1 \<or> length premiums < 2 then Inl IndexError
         else Inr (map (\<lambda>S. rnd (rnd (max (rnd (S - strike_prices ! 0)) 0 - premiums ! 0)
                              + rnd (max (rnd (strike_prices ! 0 - S)) 0 - premiums ! 1)))
                     stock_prices))
      else if strategy = ''Short Straddle'' then
        (if length strike_prices < 1 \<or> length premiums < 2 then Inl IndexError
         else Inr (map (\<lambda>S. rnd (rnd (min 0 (rnd (S - strike_prices ! 0)) + premiums ! 0)
                              + rnd (min 0 (rnd (strike_prices ! 0 - S)) + premiums ! 1)))
                     stock_prices))
      else if strategy = ''Long Strangle'' then
        (if length strike_prices < 2 \<or> length premiums < 2 then Inl IndexError
         else Inr (map (\<lambda>S. rnd (rnd (max (rnd (S - strike_prices ! 0)) 0 - premiums ! 0)
                              + rnd (max (rnd (strike_prices ! 1 - S)) 0 - premiums ! 1)))
                     stock_prices))
      else if strategy = ''Short Strangle'' then
        (if length strike_prices < 2 \<or> length premiums < 2 then Inl IndexError
         else Inr (map (\<lambda>S. rnd (rnd (- max 0 (rnd (S - strike_prices ! 0)) + premiums ! 0)
                              + rnd (- max 0 (rnd (strike_prices ! 1 - S)) + premiums ! 1)))
                     stock_prices))
      else Inr payoff)"

section \<open>The loop over the legs and the branches, in closed form\<close>

text \<open>
  The loop raises nothing but \<^verbatim>\<open>IndexError\<close>; it returns when both
  \<^verbatim>\<open>positions\<close> and \<^verbatim>\<open>premiums\<close> have an entry for every strike; and
  when it returns, it has added to every grid point the sum of the legs' contributions.
\<close>

lemma leg_loop_error:
  "leg_loop G P pos i ks payoff = Inl e \<Longrightarrow> e = IndexError"
  by (induction ks arbitrary: i payoff) (auto split: if_splits)

lemma leg_loop_sum:
  "i + length ks \<le> length pos \<Longrightarrow>
   (\<forall>j<length ks. pos ! (i + j) = ''Call'' \<or> pos ! (i + j) = ''Put'' \<longrightarrow> i + j < length P) \<Longrightarrow>
   leg_loop G P pos i ks (map a G)
     = Inr (map (\<lambda>S. a S + (\<Sum>j<length ks. long_leg (pos ! (i + j)) (ks ! j) (P ! (i + j)) S)) G)"
proof (induction ks arbitrary: i a)
  case Nil
  then show ?case by simp
next
  case (Cons k ks)
  have pos_i: "i < length pos" using Cons.prems(1) by simp
  have len: "Suc i + length ks \<le> length pos" using Cons.prems(1) by simp
  have prem: "\<forall>j<length ks. pos ! (Suc i + j) = ''Call'' \<or> pos ! (Suc i + j) = ''Put''
                 \<longrightarrow> Suc i + j < length P"
  proof (intro allI impI)
    fix j assume "j < length ks" and "pos ! (Suc i + j) = ''Call'' \<or> pos ! (Suc i + j) = ''Put''"
    then show "Suc i + j < length P" using Cons.prems(2)[rule_format, of "Suc j"] by simp
  qed
  have p0: "pos ! i = ''Call'' \<or> pos ! i = ''Put'' \<Longrightarrow> i < length P"
    using Cons.prems(2)[rule_format, of 0] by simp
  have step: "leg_loop G P pos i (k # ks) (map a G)
      = leg_loop G P pos (Suc i) ks (map (\<lambda>S. a S + long_leg (pos ! i) k (P ! i) S) G)"
    using pos_i p0 by (auto simp: long_leg_def map2_map_map)
  have sum: "\<And>S. (\<Sum>j<length (k # ks). long_leg (pos ! (i + j)) ((k # ks) ! j) (P ! (i + j)) S)
      = long_leg (pos ! i) k (P ! i) S
        + (\<Sum>j<length ks. long_leg (pos ! (Suc i + j)) (ks ! j) (P ! (Suc i + j)) S)"
    unfolding length_Cons sum.lessThan_Suc_shift by simp
  show ?case
    unfolding step Cons.IH[OF len prem] sum by (simp add: add.assoc)
qed

lemma leg_loop_zero:
  "length ks \<le> length pos \<Longrightarrow>
   (\<forall>j<length ks. pos ! j = ''Call'' \<or> pos ! j = ''Put'' \<longrightarrow> j < length P) \<Longrightarrow>
   leg_loop G P pos 0 ks (map (\<lambda>S. 0) G)
     = Inr (map (\<lambda>S. \<Sum>j<length ks. long_leg (pos ! j) (ks ! j) (P ! j) S) G)"
  using leg_loop_sum [of 0 ks pos P G "\<lambda>S. 0"] by simp

lemma strategy_branch_error:
  "strategy_branch s G K P avg payoff = Inl e \<Longrightarrow> e = IndexError"
  by (auto simp: strategy_branch_def split: if_splits)

lemma long_call_curve:
  "calculate_payoff ''Long Call'' G [K] [p] [''Call''] avg = Inr (map (\<lambda>S. max (S - K) 0 - p) G)"
  by (simp add: calculate_payoff_def strategy_branch_def map2_map_map)

lemma long_put_curve:
  "calculate_payoff ''Long Put'' G [K] [p] [''Put''] avg = Inr (map (\<lambda>S. max (K - S) 0 - p) G)"
  by (simp add: calculate_payoff_def strategy_branch_def map2_map_map)

lemma leg_loop_covered:
  "i + length ks \<le> length pos \<Longrightarrow> i + length ks \<le> length P \<Longrightarrow>
   \<exists>c. leg_loop G P pos i ks payoff = Inr c"
  by (induction ks arbitrary: i payoff) auto

text \<open>
  With fewer leg kinds than strikes the loop raises \<^verbatim>\<open>IndexError\<close>, whatever the
  strategy.
\<close>

lemma leg_loop_short_positions:
  "i \<le> length pos \<Longrightarrow> length pos < i + length ks \<Longrightarrow>
   leg_loop G P pos i ks payoff = Inl IndexError"
  by (induction ks arbitrary: i payoff) auto

section \<open>The guards and the branches\<close>

text \<open>
  The three leg-count guards: each raises its \<^verbatim>\<open>ValueError\<close> when its condition
  holds, and when none holds the function runs the loop and the branch, neither of which
  raises a \<^verbatim>\<open>ValueError\<close>.
\<close>

lemma guard_four:
  assumes "strategy \<in> set [''Iron Condor'', ''Iron Butterfly'']" "length strike_prices < 4"
  shows "calculate_payoff strategy G strike_prices premiums positions avg
           = Inl (ValueError (strategy @ '' requires 4 strike prices and 4 premiums.''))"
  unfolding calculate_payoff_def using assms by (simp only: if_True simp_thms)

lemma guard_two:
  assumes "strategy \<in> set [''Bull Put Spread'', ''Bear Call Spread'', ''Collar'',
                              ''Long Straddle'', ''Short Straddle'', ''Long Strangle'',
                              ''Short Strangle'']" "length strike_prices < 2"
  shows "calculate_payoff strategy G strike_prices premiums positions avg
           = Inl (ValueError (strategy @ '' requires 2 strike prices and 2 premiums.''))"
proof -
  have not4: "strategy \<notin> set [''Iron Condor'', ''Iron Butterfly'']"
    using assms(1) by auto
  have "strategy \<in> set [''Bull Put Spread'', ''Bear Call Spread'', ''Collar'']
        \<or> strategy \<in> set [''Long Straddle'', ''Short Straddle'', ''Long Strangle'', ''Short Strangle'']"
    using assms(1) by auto
  then show ?thesis
  proof
    assume a: "strategy \<in> set [''Bull Put Spread'', ''Bear Call Spread'', ''Collar'']"
    show ?thesis unfolding calculate_payoff_def using a not4 assms(2)
      by (simp only: if_True if_False simp_thms)
  next
    assume b: "strategy \<in> set [''Long Straddle'', ''Short Straddle'', ''Long Strangle'', ''Short Strangle'']"
    show ?thesis unfolding calculate_payoff_def using b not4 assms(2)
      by (simp only: if_True if_False simp_thms if_cancel)
  qed
qed

lemma guard_none:
  assumes "\<not> (strategy \<in> set [''Iron Condor'', ''Iron Butterfly''] \<and> length strike_prices < 4)"
    and "\<not> (strategy \<in> set [''Bull Put Spread'', ''Bear Call Spread'', ''Collar'',
                              ''Long Straddle'', ''Short Straddle'', ''Long Strangle'',
                              ''Short Strangle''] \<and> length strike_prices < 2)"
  shows "calculate_payoff strategy G strike_prices premiums positions avg \<noteq> Inl (ValueError msg)"
proof -
  have a: "\<not> (strategy \<in> set [''Bull Put Spread'', ''Bear Call Spread'', ''Collar'']
              \<and> length strike_prices < 2)"
    using assms(2) by auto
  have b: "\<not> (strategy \<in> set [''Long Straddle'', ''Short Straddle'', ''Long Strangle'',
                                ''Short Strangle'']
              \<and> length strike_prices < 2)"
    using assms(2) by auto
  have run: "calculate_payoff strategy G strike_prices premiums positions avg
      = (case leg_loop G premiums positions 0 strike_prices (map (\<lambda>S. 0) G) of
           Inl e \<Rightarrow> Inl e
         | Inr payoff \<Rightarrow> strategy_branch strategy G strike_prices premiums avg payoff)"
    unfolding calculate_payoff_def using assms(1) a b by (simp only: if_False)
  show ?thesis
    unfolding run by (auto split: sum.splits dest: leg_loop_error strategy_branch_error)
qed






lemma degraded_branch:
  assumes "strategy \<in> set [''Covered Call'', ''Protective Put'', ''Collar'']"
  shows "strategy_branch strategy G K P None payoff = Inr payoff"
proof -
  consider "strategy = ''Covered Call''" | "strategy = ''Protective Put''" | "strategy = ''Collar''"
    using assms by auto
  then show ?thesis by cases (simp_all add: strategy_branch_def)
qed

lemma degraded_guard:
  assumes "strategy \<in> set [''Covered Call'', ''Protective Put'', ''Collar'']"
    and "strategy = ''Collar'' \<longrightarrow> 2 \<le> length K"
  shows "calculate_payoff strategy G K P pos avg
      = (case leg_loop G P pos 0 K (map (\<lambda>S. 0) G) of
           Inl e \<Rightarrow> Inl e
         | Inr payoff \<Rightarrow> strategy_branch strategy G K P avg payoff)"
proof -
  have a: "\<not> (strategy \<in> set [''Iron Condor'', ''Iron Butterfly''] \<and> length K < 4)"
    using assms(1) by auto
  have b: "\<not> (strategy \<in> set [''Bull Put Spread'', ''Bear Call Spread'', ''Collar'']
              \<and> length K < 2)"
    using assms by auto
  have c: "\<not> (strategy \<in> set [''Long Straddle'', ''Short Straddle'', ''Long Strangle'',
                                ''Short Strangle'']
              \<and> length K < 2)"
    using assms(1) by auto
  show ?thesis
    unfolding calculate_payoff_def using a b c by (simp only: if_False)
qed



section \<open>Break-even prices as roots of the payoff\<close>

text \<open>
  Where the solver's prices are roots of the evaluator's payoff. For the eleven strategies
  made of options only they are, with non-negative premiums, strikes in the order of the
  roles, and a net premium that does not exceed the distance between the strikes it is
  measured against (the Butterfly Spread with equally spaced strikes, the Iron Butterfly
  with one strike for its two sold options).
\<close>

lemma single_leg_roots:
  assumes "0 \<le> p"
  shows "calculate_break_even ''Long Call'' [K] [p] avg = Inr [Price (K + p)]"
    and "calculate_payoff ''Long Call'' [K + p] [K] [p] [''Call''] avg = Inr [0]"
    and "calculate_break_even ''Long Put'' [K] [p] avg = Inr [Price (K - p)]"
    and "calculate_payoff ''Long Put'' [K - p] [K] [p] [''Put''] avg = Inr [0]"
  using assms
  by (simp_all add: calculate_break_even_def calculate_payoff_def strategy_branch_def max_def)

lemma straddle_roots:
  assumes "0 \<le> p_call" and "0 \<le> p_put"
  shows "calculate_break_even ''Long Straddle'' [K, K] [p_call, p_put] avg
           = Inr [Price (K - (p_call + p_put)), Price (K + (p_call + p_put))]"
    and "calculate_payoff ''Long Straddle'' [K - (p_call + p_put), K + (p_call + p_put)]
           [K, K] [p_call, p_put] [''Call'', ''Put''] avg = Inr [0, 0]"
    and "calculate_break_even ''Short Straddle'' [K, K] [p_call, p_put] avg
           = Inr [Price (K - (p_call + p_put)), Price (K + (p_call + p_put))]"
    and "calculate_payoff ''Short Straddle'' [K - (p_call + p_put), K + (p_call + p_put)]
           [K, K] [p_call, p_put] [''Call'', ''Put''] avg = Inr [0, 0]"
  using assms
  by (simp_all add: calculate_break_even_def calculate_payoff_def strategy_branch_def
        Let_def max_def min_def)

lemma strangle_roots:
  assumes "0 \<le> p_call" and "0 \<le> p_put" and "K_put \<le> K_call"
  shows "calculate_break_even ''Long Strangle'' [K_call, K_put] [p_call, p_put] avg
           = Inr [Price (K_put - (p_call + p_put)), Price (K_call + (p_call + p_put))]"
    and "calculate_payoff ''Long Strangle'' [K_put - (p_call + p_put), K_call + (p_call + p_put)]
           [K_call, K_put] [p_call, p_put] [''Call'', ''Put''] avg = Inr [0, 0]"
    and "calculate_break_even ''Short Strangle'' [K_call, K_put] [p_call, p_put] avg
           = Inr [Price (K_put - (p_call + p_put)), Price (K_call + (p_call + p_put))]"
    and "calculate_payoff ''Short Strangle'' [K_put - (p_call + p_put), K_call + (p_call + p_put)]
           [K_call, K_put] [p_call, p_put] [''Call'', ''Put''] avg = Inr [0, 0]"
  using assms
  by (simp_all add: calculate_break_even_def calculate_payoff_def strategy_branch_def
        Let_def max_def)

lemma spread_roots:
  assumes "0 \<le> p_short - p_long" and "p_short - p_long \<le> \<bar>K_short - K_long\<bar>"
  shows "K_long \<le> K_short \<Longrightarrow>
         calculate_break_even ''Bull Put Spread'' [K_short, K_long] [p_short, p_long] avg
           = Inr [Price (K_short - (p_short - p_long))]
         \<and> calculate_payoff ''Bull Put Spread'' [K_short - (p_short - p_long)]
             [K_short, K_long] [p_short, p_long] [''Put'', ''Put''] avg = Inr [0]"
    and "K_short \<le> K_long \<Longrightarrow>
         calculate_break_even ''Bear Call Spread'' [K_short, K_long] [p_short, p_long] avg
           = Inr [Price (K_short + (p_short - p_long))]
         \<and> calculate_payoff ''Bear Call Spread'' [K_short + (p_short - p_long)]
             [K_short, K_long] [p_short, p_long] [''Call'', ''Call''] avg = Inr [0]"
  using assms
  by (simp_all add: calculate_break_even_def calculate_payoff_def strategy_branch_def
        Let_def max_def min_def)

lemma iron_condor_roots:
  assumes "K3 \<le> K2" and "K2 \<le> K0" and "K0 \<le> K1"
    and "0 \<le> (p0 + p2) - (p1 + p3)"
    and "(p0 + p2) - (p1 + p3) \<le> K2 - K3" and "(p0 + p2) - (p1 + p3) \<le> K1 - K0"
  shows "calculate_break_even ''Iron Condor'' [K0, K1, K2, K3] [p0, p1, p2, p3] avg
           = Inr [Price (K2 - ((p0 + p2) - (p1 + p3))), Price (K0 + ((p0 + p2) - (p1 + p3)))]"
    and "calculate_payoff ''Iron Condor''
           [K2 - ((p0 + p2) - (p1 + p3)), K0 + ((p0 + p2) - (p1 + p3))]
           [K0, K1, K2, K3] [p0, p1, p2, p3] [''Call'', ''Call'', ''Put'', ''Put''] avg
           = Inr [0, 0]"
  using assms
  by (simp_all add: calculate_break_even_def calculate_payoff_def strategy_branch_def
        Let_def max_def)

lemma iron_butterfly_roots:
  assumes "K0 \<le> K" and "K \<le> K3"
    and "0 \<le> (p1 + p2) - (p0 + p3)"
    and "(p1 + p2) - (p0 + p3) \<le> K - K0" and "(p1 + p2) - (p0 + p3) \<le> K3 - K"
  shows "calculate_break_even ''Iron Butterfly'' [K0, K, K, K3] [p0, p1, p2, p3] avg
           = Inr [Price (K + ((p1 + p2) - (p0 + p3))), Price (K - ((p1 + p2) - (p0 + p3)))]"
    and "calculate_payoff ''Iron Butterfly''
           [K + ((p1 + p2) - (p0 + p3)), K - ((p1 + p2) - (p0 + p3))]
           [K0, K, K, K3] [p0, p1, p2, p3] [''Put'', ''Put'', ''Call'', ''Call''] avg
           = Inr [0, 0]"
  using assms
  by (simp_all add: calculate_break_even_def calculate_payoff_def strategy_branch_def
        Let_def max_def)

lemma butterfly_roots:
  assumes "0 \<le> w"
    and "0 \<le> p0 - 2 * p1 + p2" and "p0 - 2 * p1 + p2 \<le> w"
  shows "calculate_break_even ''Butterfly Spread'' [K - w, K, K + w] [p0, p1, p2] avg
           = Inr [Price (K - w + (p0 - 2 * p1 + p2)), Price (K + w - (p0 - 2 * p1 + p2))]"
    and "calculate_payoff ''Butterfly Spread''
           [K - w + (p0 - 2 * p1 + p2), K + w - (p0 - 2 * p1 + p2)]
           [K - w, K, K + w] [p0, p1, p2] [''Call'', ''Call'', ''Call''] avg
           = Inr [0, 0]"
  using assms
  by (simp_all add: calculate_break_even_def calculate_payoff_def strategy_branch_def
        Let_def max_def min_def)

text \<open>
  Where the payoff of the three stock-linked strategies does vanish: at the average stock
  price less the premium for the Covered Call, plus the premium for the Protective Put,
  plus the put's premium less the call's for the Collar, as long as that price lies on the
  side of the strike where the option is not exercised (between the two strikes for the
  Collar). The Collar's root is the price the application computes for itself at its
  Collar call site (lines 2113 and 2114), in place of calling the solver.
\<close>

lemma collar_root:
  assumes "K_put \<le> a + (p_put - p_call)" and "a + (p_put - p_call) \<le> K_call"
  shows "calculate_payoff ''Collar'' [a + (p_put - p_call)] [K_put, K_call] [p_put, p_call]
           [''Put'', ''Call''] (Some a) = Inr [0]"
  using assms by (simp add: calculate_payoff_def strategy_branch_def max_def)

lemma covered_call_root:
  assumes "a - p \<le> K"
  shows "calculate_payoff ''Covered Call'' [a - p] [K] [p] [''Call''] (Some a) = Inr [0]"
  using assms by (simp add: calculate_payoff_def strategy_branch_def min_def)

lemma protective_put_root:
  assumes "K \<le> a + p"
  shows "calculate_payoff ''Protective Put'' [a + p] [K] [p] [''Put''] (Some a) = Inr [0]"
  using assms by (simp add: calculate_payoff_def strategy_branch_def max_def)

text \<open>
  Claim C1. Consistency law: every break-even price the solver returns, substituted as
  the underlying price into the evaluator for the same strategy, strikes, premiums and
  average stock price, gives payoff 0. The code at three valid configurations, each with
  its average stock price 100: for the Collar with put strike 95, premium 3 and call strike
  105, premium 2 the solver returns 97 and 102, where the payoff is \<open>- 4\<close> and 1; for
  the Covered Call with strike 110 and premium 5 it returns 105, where the payoff is 10;
  for the Protective Put with strike 95 and premium 3 it returns 97, where the payoff is
  \<open>- 6\<close>. The solver adds the premium where the root subtracts it, and conversely
  (\<open>covered_call_root\<close>, \<open>protective_put_root\<close>, \<open>collar_root\<close> above).
\<close>

theorem stock_linked_break_even_not_root:
  "calculate_break_even ''Collar'' [95, 105] [3, 2] (Some 100) = Inr [Price 97, Price 102]
   \<and> calculate_payoff ''Collar'' [97, 102] [95, 105] [3, 2] [''Put'', ''Call''] (Some 100)
       = Inr [- 4, 1]
   \<and> calculate_break_even ''Covered Call'' [110] [5] (Some 100) = Inr [Price 105]
   \<and> calculate_payoff ''Covered Call'' [105] [110] [5] [''Call''] (Some 100) = Inr [10]
   \<and> calculate_break_even ''Protective Put'' [95] [3] (Some 100) = Inr [Price 97]
   \<and> calculate_payoff ''Protective Put'' [97] [95] [3] [''Put''] (Some 100) = Inr [- 6]"
  by (simp add: calculate_break_even_def calculate_payoff_def strategy_branch_def)

section \<open>The leg-count guards\<close>

text \<open>
  Claim C2, as the code has it. \<^verbatim>\<open>calculate_payoff\<close> raises the
  \<^verbatim>\<open>ValueError\<close> naming the strategy and the expected count exactly in two cases:
  the strategy is Iron Condor or Iron Butterfly and fewer than 4 strikes are given (message
  "requires 4 strike prices and 4 premiums."), or the strategy is Bull Put Spread, Bear
  Call Spread, Collar or a straddle or strangle variant and fewer than 2 strikes are given
  (message "requires 2 strike prices and 2 premiums."). The guard counts strikes only, not
  premiums or leg kinds, and it is a lower bound: no other call raises this error. In
  particular an Iron Condor with 2 strikes fails this way.
\<close>

theorem leg_count_guard:
  "(calculate_payoff strategy G strike_prices premiums positions avg = Inl (ValueError msg)
      \<longleftrightarrow> (strategy \<in> set [''Iron Condor'', ''Iron Butterfly''] \<and> length strike_prices < 4
            \<and> msg = strategy @ '' requires 4 strike prices and 4 premiums.'')
        \<or> (strategy \<in> set [''Bull Put Spread'', ''Bear Call Spread'', ''Collar'',
                              ''Long Straddle'', ''Short Straddle'', ''Long Strangle'',
                              ''Short Strangle'']
            \<and> length strike_prices < 2
            \<and> msg = strategy @ '' requires 2 strike prices and 2 premiums.''))
   \<and> calculate_payoff ''Iron Condor'' G [k0, k1] premiums positions avg
       = Inl (ValueError ''Iron Condor requires 4 strike prices and 4 premiums.'')"
proof (intro conjI)
  let ?four = "strategy \<in> set [''Iron Condor'', ''Iron Butterfly''] \<and> length strike_prices < 4"
  let ?two = "strategy \<in> set [''Bull Put Spread'', ''Bear Call Spread'', ''Collar'',
                              ''Long Straddle'', ''Short Straddle'', ''Long Strangle'',
                              ''Short Strangle''] \<and> length strike_prices < 2"
  let ?r = "calculate_payoff strategy G strike_prices premiums positions avg"
  have disjoint: "\<not> (?four \<and> ?two)" by auto
  consider (four) ?four "\<not> ?two" | (two) ?two "\<not> ?four" | (none) "\<not> ?four" "\<not> ?two"
    using disjoint by blast
  then have main: "?r = Inl (ValueError msg)
      \<longleftrightarrow> (?four \<and> msg = strategy @ '' requires 4 strike prices and 4 premiums.'')
        \<or> (?two \<and> msg = strategy @ '' requires 2 strike prices and 2 premiums.'')"
  proof cases
    case four
    have "?r = Inl (ValueError (strategy @ '' requires 4 strike prices and 4 premiums.''))"
      using four(1) guard_four by blast
    then show ?thesis using four by (simp only: sum.inject error.inject simp_thms) blast
  next
    case two
    have "?r = Inl (ValueError (strategy @ '' requires 2 strike prices and 2 premiums.''))"
      using two(1) guard_two by blast
    then show ?thesis using two by (simp only: sum.inject error.inject simp_thms) blast
  next
    case none
    have "?r \<noteq> Inl (ValueError msg)" using none guard_none by blast
    then show ?thesis using none by blast
  qed
  show "?r = Inl (ValueError msg)
      \<longleftrightarrow> (strategy \<in> set [''Iron Condor'', ''Iron Butterfly''] \<and> length strike_prices < 4
            \<and> msg = strategy @ '' requires 4 strike prices and 4 premiums.'')
        \<or> (strategy \<in> set [''Bull Put Spread'', ''Bear Call Spread'', ''Collar'',
                              ''Long Straddle'', ''Short Straddle'', ''Long Strangle'',
                              ''Short Strangle'']
            \<and> length strike_prices < 2
            \<and> msg = strategy @ '' requires 2 strike prices and 2 premiums.'')"
    using main by (simp only: conj_assoc)
  show "calculate_payoff ''Iron Condor'' G [k0, k1] premiums positions avg
       = Inl (ValueError ''Iron Condor requires 4 strike prices and 4 premiums.'')"
    using guard_four [of "''Iron Condor''" "[k0, k1]" G premiums positions avg] by simp
qed

theorem leg_count_guard_witness:
  "calculate_payoff ''Iron Butterfly'' [100] [90, 100, 110] [1, 5, 1] [''Put'', ''Put'', ''Call''] None
     = Inl (ValueError ''Iron Butterfly requires 4 strike prices and 4 premiums.'')
   \<and> calculate_payoff ''Butterfly Spread'' [100] [90, 100] [1, 5] [''Call'', ''Call''] None
     \<noteq> Inl (ValueError ''Butterfly Spread requires 3 strike prices and 3 premiums.'')"
proof
  show "calculate_payoff ''Iron Butterfly'' [100] [90, 100, 110] [1, 5, 1] [''Put'', ''Put'', ''Call''] None
     = Inl (ValueError ''Iron Butterfly requires 4 strike prices and 4 premiums.'')"
    using leg_count_guard [of "''Iron Butterfly''" "[100]" "[90, 100, 110]" "[1, 5, 1]"
          "[''Put'', ''Put'', ''Call'']" None
          "''Iron Butterfly requires 4 strike prices and 4 premiums.''" 0 0]
    by simp
  show "calculate_payoff ''Butterfly Spread'' [100] [90, 100] [1, 5] [''Call'', ''Call''] None
     \<noteq> Inl (ValueError ''Butterfly Spread requires 3 strike prices and 3 premiums.'')"
    using leg_count_guard [of "''Butterfly Spread''" "[100]" "[90, 100]" "[1, 5]"
          "[''Call'', ''Call'']" None
          "''Butterfly Spread requires 3 strike prices and 3 premiums.''" 0 0]
    by simp
qed

text \<open>
  The stronger statement, that every call whose arrays do not match the strategy's leg
  count fails, does not hold: an Iron Condor with five legs and a Long Call with two legs
  both return a curve.
\<close>

theorem leg_count_counterexample:
  "calculate_payoff ''Iron Condor'' [100] [110, 115, 90, 85, 80] [2, 1, 2, 1, 1]
     [''Call'', ''Call'', ''Put'', ''Put'', ''Put''] None = Inr [2]
   \<and> calculate_payoff ''Long Call'' [120] [100, 110] [5, 5] [''Call'', ''Call''] None = Inr [20]"
  by (simp add: calculate_payoff_def strategy_branch_def)

section \<open>Strategies outside the catalog\<close>




section \<open>Scenarios\<close>

text \<open>
  Claim C4. The Iron Condor scenario: strikes 110 (short call), 115 (long call), 90 (short
  put), 85 (long put) with premiums 2, 1, 2, 1. The solver returns exactly the two prices
  88 and 112, and the evaluator, called with the leg kinds the application passes for an
  Iron Condor, gives payoff 2 at the underlying price 100. Neither result depends on the
  average stock price.
\<close>

theorem iron_condor_scenario:
  "calculate_break_even ''Iron Condor'' [110, 115, 90, 85] [2, 1, 2, 1] avg
     = Inr [Price 88, Price 112]
   \<and> calculate_payoff ''Iron Condor'' [100] [110, 115, 90, 85] [2, 1, 2, 1]
       [''Call'', ''Call'', ''Put'', ''Put''] avg = Inr [2]"
  by (simp add: calculate_break_even_def calculate_payoff_def strategy_branch_def)

section \<open>Order of the break-even prices\<close>

text \<open>
  The solver returns one or two entries whenever it returns. The two prices of the
  straddles, of the strangles whose put strike does not exceed the call strike, and of the
  Collar are in ascending order when the premiums are non-negative.
\<close>

lemma break_even_length:
  assumes "calculate_break_even strategy K P avg = Inr xs"
  shows "length xs = 1 \<or> length xs = 2"
  using assms
  by (auto simp: calculate_break_even_def Let_def split: if_splits)

lemma two_price_order:
  assumes "0 \<le> p0" and "0 \<le> p1"
  shows "calculate_break_even ''Long Straddle'' [K, K'] [p0, p1] avg = Inr [Price lo, Price hi]
           \<Longrightarrow> lo \<le> hi"
    and "calculate_break_even ''Short Straddle'' [K, K'] [p0, p1] avg = Inr [Price lo, Price hi]
           \<Longrightarrow> lo \<le> hi"
    and "K_put \<le> K_call \<Longrightarrow>
         calculate_break_even ''Long Strangle'' [K_call, K_put] [p0, p1] avg
           = Inr [Price lo, Price hi] \<Longrightarrow> lo \<le> hi"
    and "K_put \<le> K_call \<Longrightarrow>
         calculate_break_even ''Short Strangle'' [K_call, K_put] [p0, p1] avg
           = Inr [Price lo, Price hi] \<Longrightarrow> lo \<le> hi"
    and "calculate_break_even ''Collar'' [K, K'] [p0, p1] (Some a) = Inr [Price lo, Price hi]
           \<Longrightarrow> lo \<le> hi"
  using assms by (auto simp: calculate_break_even_def Let_def)

text \<open>
  Claim C5. The solver returns at most two entries, and two numeric prices come in
  ascending order. The code at an Iron Butterfly with strikes 90 (long put), 100 (short
  put), 100 (short call), 110 (long call) and premiums 1, 5, 5, 1: it returns 108 first
  and 92 second, in the variables it names \<^verbatim>\<open>lower_bep\<close> and \<^verbatim>\<open>upper_bep\<close>.
  Both prices are roots of the payoff; only their order is reversed, since
  \<^verbatim>\<open>total_premium\<close> is the premium paid minus the premium received, negative for a
  position that receives a net credit.
\<close>

theorem iron_butterfly_break_even_descending:
  "calculate_break_even ''Iron Butterfly'' [90, 100, 100, 110] [1, 5, 5, 1] avg
     = Inr [Price 108, Price 92]
   \<and> calculate_payoff ''Iron Butterfly'' [108, 92] [90, 100, 100, 110] [1, 5, 5, 1]
       [''Put'', ''Put'', ''Call'', ''Call''] avg = Inr [0, 0]"
  by (simp add: calculate_break_even_def calculate_payoff_def strategy_branch_def)

section \<open>Stock-linked strategies without an average stock price\<close>

text \<open>
  Claim C6, as the code has it. For Covered Call, Protective Put and Collar with no
  average stock price, a Collar having at least 2 strikes, and \<^verbatim>\<open>positions\<close> and
  \<^verbatim>\<open>premiums\<close> having an entry for every strike, \<^verbatim>\<open>calculate_payoff\<close> does
  not fail, leaves the stock-linked terms out, and returns what the loop over the legs
  accumulated: at every grid price the sum over the legs of \<open>long_leg\<close>, the payoff of a
  bought call or put for a leg of kind Call or Put and nothing for any other kind. Every
  leg counts as bought, whatever its direction in the strategy.
\<close>

theorem missing_average_price_degraded:
  assumes "strategy \<in> set [''Covered Call'', ''Protective Put'', ''Collar'']"
    and "strategy = ''Collar'' \<longrightarrow> 2 \<le> length strike_prices"
    and "length strike_prices \<le> length positions"
    and "length strike_prices \<le> length premiums"
  shows "calculate_payoff strategy G strike_prices premiums positions None
           = Inr (map (\<lambda>S. \<Sum>i<length strike_prices.
                        long_leg (positions ! i) (strike_prices ! i) (premiums ! i) S) G)"
proof -
  have "leg_loop G premiums positions 0 strike_prices (map (\<lambda>S. 0) G)
      = Inr (map (\<lambda>S. \<Sum>j<length strike_prices.
                 long_leg (positions ! j) (strike_prices ! j) (premiums ! j) S) G)"
    using assms(3,4) by (intro leg_loop_zero) auto
  then show ?thesis
    by (simp add: degraded_guard [OF assms(1,2)] degraded_branch [OF assms(1)])
qed

theorem missing_average_price_degraded_witness:
  "''Collar'' \<in> set [''Covered Call'', ''Protective Put'', ''Collar'']
   \<and> 2 \<le> length [95, 105 :: real]
   \<and> calculate_payoff ''Collar'' [90, 100, 110] [95, 105] [3, 2] [''Put'', ''Call''] None
       = Inr [0, - 5, 0]
   \<and> calculate_payoff ''Covered Call'' [90, 120] [100] [5] [''Call''] None = Inr [- 5, 15]"
  using missing_average_price_degraded [of "''Collar''" "[95, 105]" "[''Put'', ''Call'']"
          "[3, 2]" "[90, 100, 110]"]
        missing_average_price_degraded [of "''Covered Call''" "[100]" "[''Call'']"
          "[5]" "[90, 120]"]
  by (simp add: long_leg_def lessThan_Suc numeral_2_eq_2)

text \<open>
  The stronger statement, each leg in the strategy's direction and no failure, does not
  hold: the call of a Covered Call is sold (\<open>min 0 (K - S) + p\<close> in its branch), yet
  without an average stock price the curve is that of a bought call; and a Collar with one
  strike raises the \<^verbatim>\<open>ValueError\<close> of its guard.
\<close>

theorem missing_average_price_counterexample:
  "calculate_payoff ''Covered Call'' [90, 120] [100] [5] [''Call''] None = Inr [- 5, 15]
   \<and> calculate_payoff ''Covered Call'' [90, 120] [100] [5] [''Call''] None
       \<noteq> Inr (map (\<lambda>S. min 0 (100 - S) + 5) [90, 120])
   \<and> calculate_payoff ''Collar'' [90, 120] [95] [3] [''Put''] None
       = Inl (ValueError ''Collar requires 2 strike prices and 2 premiums.'')"
  by (simp add: calculate_payoff_def strategy_branch_def)

section \<open>Sentinels of the solver\<close>

text \<open>
  Claim C7. The solver raises nothing for a missing average stock price or an unknown
  strategy. For Covered Call, Protective Put and Collar without an average stock price it
  returns the one-entry list holding the marker \<^verbatim>\<open>"Avg Stock Price Required"\<close>; for a
  strategy name outside the catalog it returns the one-entry list holding the marker
  \<^verbatim>\<open>"N/A"\<close>; whatever the strikes and premiums. A marker is never a number.
\<close>

theorem break_even_sentinels:
  "(strategy \<in> set [''Covered Call'', ''Protective Put'', ''Collar'']
      \<longrightarrow> calculate_break_even strategy strike_prices premiums None
            = Inr [Marker ''Avg Stock Price Required''])
   \<and> (strategy \<notin> set STRATEGIES
      \<longrightarrow> calculate_break_even strategy strike_prices premiums avg = Inr [Marker ''N/A''])
   \<and> (\<forall>s x. Marker s \<noteq> Price x)"
  by (auto simp: calculate_break_even_def STRATEGIES_def)

theorem break_even_sentinels_witness:
  "''Collar'' \<in> set [''Covered Call'', ''Protective Put'', ''Collar'']
   \<and> calculate_break_even ''Collar'' [] [] None = Inr [Marker ''Avg Stock Price Required'']
   \<and> ''Married Put'' \<notin> set STRATEGIES
   \<and> calculate_break_even ''Married Put'' [] [] (Some 100) = Inr [Marker ''N/A'']"
  using break_even_sentinels [of "''Collar''" "[]" "[]" "Some 100"]
        break_even_sentinels [of "''Married Put''" "[]" "[]" "Some 100"]
  by (simp add: STRATEGIES_def)

section \<open>Laws of the evaluator\<close>

text \<open>
  In exact arithmetic the symmetry holds for the whole function: for a pair of strikes
  and a pair of premiums, and any leg kinds, the Long Straddle call has the outcome of the
  Short Straddle call with the curve negated point by point (and the same error when the
  loop over the legs raises one); likewise Long and Short Strangle.
\<close>

lemma long_short_symmetry_exact:
  assumes "length strike_prices = 2" and "length premiums = 2"
  shows "(case calculate_payoff ''Short Straddle'' G strike_prices premiums positions avg of
            Inl e \<Rightarrow> calculate_payoff ''Long Straddle'' G strike_prices premiums positions avg = Inl e
          | Inr c \<Rightarrow> calculate_payoff ''Long Straddle'' G strike_prices premiums positions avg
                       = Inr (map uminus c))
       \<and> (case calculate_payoff ''Short Strangle'' G strike_prices premiums positions avg of
            Inl e \<Rightarrow> calculate_payoff ''Long Strangle'' G strike_prices premiums positions avg = Inl e
          | Inr c \<Rightarrow> calculate_payoff ''Long Strangle'' G strike_prices premiums positions avg
                       = Inr (map uminus c))
       \<and> (2 \<le> length positions \<longrightarrow>
            (\<exists>c. calculate_payoff ''Short Straddle'' G strike_prices premiums positions avg = Inr c)
          \<and> (\<exists>c. calculate_payoff ''Short Strangle'' G strike_prices premiums positions avg = Inr c))"
proof (intro conjI impI)
  show "case calculate_payoff ''Short Straddle'' G strike_prices premiums positions avg of
            Inl e \<Rightarrow> calculate_payoff ''Long Straddle'' G strike_prices premiums positions avg = Inl e
          | Inr c \<Rightarrow> calculate_payoff ''Long Straddle'' G strike_prices premiums positions avg
                       = Inr (map uminus c)"
    using assms
    by (cases "leg_loop G premiums positions 0 strike_prices (map (\<lambda>S. 0) G)")
       (auto simp: calculate_payoff_def strategy_branch_def max_def min_def)
  show "case calculate_payoff ''Short Strangle'' G strike_prices premiums positions avg of
            Inl e \<Rightarrow> calculate_payoff ''Long Strangle'' G strike_prices premiums positions avg = Inl e
          | Inr c \<Rightarrow> calculate_payoff ''Long Strangle'' G strike_prices premiums positions avg
                       = Inr (map uminus c)"
    using assms
    by (cases "leg_loop G premiums positions 0 strike_prices (map (\<lambda>S. 0) G)")
       (auto simp: calculate_payoff_def strategy_branch_def max_def min_def)
next
  assume pos: "2 \<le> length positions"
  obtain c where c: "leg_loop G premiums positions 0 strike_prices (map (\<lambda>S. 0) G) = Inr c"
    using leg_loop_covered [of 0 strike_prices positions premiums G "map (\<lambda>S. 0) G"] assms pos
    by auto
  show "\<exists>c. calculate_payoff ''Short Straddle'' G strike_prices premiums positions avg = Inr c"
    using assms c by (simp add: calculate_payoff_def strategy_branch_def)
  show "\<exists>c. calculate_payoff ''Short Strangle'' G strike_prices premiums positions avg = Inr c"
    using assms c by (simp add: calculate_payoff_def strategy_branch_def)
qed

text \<open>
  Rounding to nearest, ties to even, is symmetric in the sign. Under a symmetric rounding
  each operation of the Short Strangle branch is the negation of the Long Strangle's, term
  by term. The Short Straddle branch adds the call premium to \<open>min 0 (S - K)\<close>, the
  intrinsic term of the put, and the put premium to that of the call: its two partial sums
  are not the negations of the Long Straddle's, and agree with them only when the
  subtractions of the intrinsic value from the premiums are exact.
\<close>

lemma round_even_minus: "round_even (- y) = - round_even y"
proof (cases "y = of_int \<lfloor>y\<rfloor>")
  case True
  then have "- y = of_int (- \<lfloor>y\<rfloor>)" by simp
  then have fl: "\<lfloor>- y\<rfloor> = - \<lfloor>y\<rfloor>" by (metis floor_of_int)
  have "round_even y = \<lfloor>y\<rfloor>" using True by (simp add: round_even_def Let_def)
  moreover have "round_even (- y) = - \<lfloor>y\<rfloor>"
    unfolding round_even_def Let_def fl using True by simp
  ultimately show ?thesis by simp
next
  case False
  define f where "f = \<lfloor>y\<rfloor>"
  define d where "d = y - of_int f"
  have d: "0 < d" "d < 1" using False unfolding d_def f_def by linarith+
  have y: "y = of_int f + d" by (simp add: d_def)
  have fl: "\<lfloor>- y\<rfloor> = - f - 1"
    using d unfolding y by (intro floor_unique) auto
  have d': "- y - of_int (- f - 1) = 1 - d" by (simp add: y)
  have pos: "round_even y = (if d < 1 / 2 then f else if 1 / 2 < d then f + 1
                             else if even f then f else f + 1)"
    unfolding round_even_def Let_def f_def [symmetric] d_def [symmetric] by simp
  have neg: "round_even (- y) = (if 1 - d < 1 / 2 then - f - 1 else if 1 / 2 < 1 - d then - f
                             else if even (- f - 1) then - f - 1 else - f)"
    unfolding round_even_def Let_def fl d' by simp
  consider "d < 1 / 2" | "1 / 2 < d" | "d = 1 / 2" by linarith
  then show ?thesis
  proof cases
    case 1 then show ?thesis unfolding pos neg by simp
  next
    case 2 then show ?thesis unfolding pos neg by simp
  next
    case 3 then show ?thesis unfolding pos neg by simp
  qed
qed

lemma exponent_minus: "exponent (- x) = exponent x"
  by (simp add: exponent_def)

lemma binary64_odd: "binary64 (- x) = - binary64 x"
  by (simp add: binary64_def exponent_minus Let_def round_even_minus)

lemma straddle_strangle_branch_exact:
  assumes "strategy \<in> set [''Long Straddle'', ''Short Straddle'', ''Long Strangle'',
                             ''Short Strangle'']"
  shows "straddle_strangle_branch (\<lambda>x. x) strategy G K P payoff
           = strategy_branch strategy G K P avg payoff"
proof -
  have "strategy = ''Long Straddle'' \<or> strategy = ''Short Straddle''
        \<or> strategy = ''Long Strangle'' \<or> strategy = ''Short Strangle''"
    using assms unfolding list.set insert_iff empty_iff by (simp only: simp_thms)
  then show ?thesis
    by (elim disjE) (simp_all add: straddle_strangle_branch_def strategy_branch_def)
qed

lemma strangle_point:
  fixes rnd :: "real \<Rightarrow> real"
  assumes odd: "\<forall>x. rnd (- x) = - rnd x"
  shows "rnd (rnd (max (rnd (S - K0)) 0 - p0) + rnd (max (rnd (K1 - S)) 0 - p1))
       = - rnd (rnd (- max 0 (rnd (S - K0)) + p0) + rnd (- max 0 (rnd (K1 - S)) + p1))"
proof -
  have a: "rnd (- max 0 (rnd (S - K0)) + p0) = - rnd (max (rnd (S - K0)) 0 - p0)"
    using odd [rule_format, of "max (rnd (S - K0)) 0 - p0"] by (simp add: max.commute)
  have b: "rnd (- max 0 (rnd (K1 - S)) + p1) = - rnd (max (rnd (K1 - S)) 0 - p1)"
    using odd [rule_format, of "max (rnd (K1 - S)) 0 - p1"] by (simp add: max.commute)
  show ?thesis
    unfolding a b
    using odd [rule_format, of "rnd (max (rnd (S - K0)) 0 - p0) + rnd (max (rnd (K1 - S)) 0 - p1)"]
    by simp
qed

lemma straddle_point:
  fixes rnd :: "real \<Rightarrow> real"
  assumes odd: "\<forall>x. rnd (- x) = - rnd x"
    and p0: "rnd p0 = p0" and p1: "rnd p1 = p1"
    and e0: "rnd (p0 - \<bar>rnd (S - K)\<bar>) = p0 - \<bar>rnd (S - K)\<bar>"
    and e1: "rnd (p1 - \<bar>rnd (S - K)\<bar>) = p1 - \<bar>rnd (S - K)\<bar>"
  shows "rnd (rnd (max (rnd (S - K)) 0 - p0) + rnd (max (rnd (K - S)) 0 - p1))
       = - rnd (rnd (min 0 (rnd (S - K)) + p0) + rnd (min 0 (rnd (K - S)) + p1))"
proof -
  define a where "a = rnd (S - K)"
  have neg: "\<And>x. rnd (- x) = - rnd x" using odd by blast
  have swap: "rnd (K - S) = - a"
    using neg [of "S - K"] by (simp add: a_def)
  have m0: "rnd (- p0) = - p0" and m1: "rnd (- p1) = - p1"
    using neg [of p0] neg [of p1] p0 p1 by simp_all
  show ?thesis
  proof (cases "0 \<le> a")
    case True
    have mx: "max a 0 = a" "max (- a) 0 = 0" and mn: "min 0 a = 0" "min 0 (- a) = - a"
      using True by simp_all
    have e0': "rnd (p0 - a) = p0 - a"
      using e0 True unfolding a_def [symmetric] by simp
    have "rnd (a - p0) = rnd (- (p0 - a))" by simp
    also have "\<dots> = - rnd (p0 - a)" by (rule neg)
    finally have x0: "rnd (a - p0) = a - p0" unfolding e0' by simp
    have x1: "rnd (- a + p1) = - a + p1"
      using e1 True unfolding a_def [symmetric] by simp
    have long: "rnd (rnd (max a 0 - p0) + rnd (max (- a) 0 - p1)) = rnd (- (p0 + p1 - a))"
      unfolding mx x0 by (simp add: m1 algebra_simps)
    have short: "rnd (rnd (min 0 a + p0) + rnd (min 0 (- a) + p1)) = rnd (p0 + p1 - a)"
      unfolding mn x1 by (simp add: p0 algebra_simps)
    show ?thesis
      unfolding swap a_def [symmetric] long short by (rule neg)
  next
    case False
    then have n: "a < 0" by simp
    have mx: "max a 0 = 0" "max (- a) 0 = - a" and mn: "min 0 a = a" "min 0 (- a) = 0"
      using n by simp_all
    have x0: "rnd (a + p0) = a + p0"
      using e0 n unfolding a_def [symmetric] by (simp add: add.commute)
    have e1': "rnd (p1 + a) = p1 + a"
      using e1 n unfolding a_def [symmetric] by simp
    have "rnd (- a - p1) = rnd (- (p1 + a))" by (simp add: algebra_simps)
    also have "\<dots> = - rnd (p1 + a)" by (rule neg)
    finally have x1: "rnd (- a - p1) = - a - p1" unfolding e1' by simp
    have long: "rnd (rnd (max a 0 - p0) + rnd (max (- a) 0 - p1)) = rnd (- (p0 + p1 + a))"
      unfolding mx x1 by (simp add: m0 algebra_simps)
    have short: "rnd (rnd (min 0 a + p0) + rnd (min 0 (- a) + p1)) = rnd (p0 + p1 + a)"
      unfolding mn x0 by (simp add: p1 algebra_simps)
    show ?thesis
      unfolding swap a_def [symmetric] long short by (rule neg)
  qed
qed

text \<open>
  Roundings of the numbers that the examples below go through, each evaluated from the
  definition of \<open>binary64\<close>.
\<close>

lemma binary64_values:
  "binary64 (1 / 5) = 3602879701896397 / 18014398509481984"
  "binary64 (47 / 20) = 5291729562160333 / 2251799813685248"
  by (simp_all add: binary64_def exponent_def pow2_def round_even_def bits.simps)

lemma binary64_steps:
  "binary64 10 = 10"
  "binary64 (3602879701896397 / 18014398509481984) = 3602879701896397 / 18014398509481984"
  "binary64 (5291729562160333 / 2251799813685248) = 5291729562160333 / 2251799813685248"
  "binary64 (17226268574692147 / 2251799813685248) = 4306567143673037 / 562949953421312"
  "binary64 (134207268895640787 / 18014398509481984) = 8387954305977549 / 1125899906842624"
  "binary64 (176541105392923443 / 18014398509481984) = 2758454771764429 / 281474976710656"
  "binary64 (16775908611955099 / 2251799813685248) = 4193977152988775 / 562949953421312"
  by (simp_all add: binary64_def exponent_def pow2_def round_even_def bits.simps)

lemma binary64_witness_steps:
  "binary64 0 = 0"
  "binary64 5 = 5"
  "binary64 15 = 15"
  "binary64 25 = 25"
  "binary64 (1 / 4) = 1 / 4"
  "binary64 (5 / 2) = 5 / 2"
  "binary64 (9 / 4) = 9 / 4"
  "binary64 (19 / 4) = 19 / 4"
  "binary64 (29 / 4) = 29 / 4"
  "binary64 (15 / 2) = 15 / 2"
  "binary64 (39 / 4) = 39 / 4"
  "binary64 (5967269506265907 / 2251799813685248) = 5967269506265907 / 2251799813685248"
  "binary64 (44135276348230859 / 18014398509481984) = 5516909543528857 / 2251799813685248"
  "binary64 (266613097940333363 / 18014398509481984) = 4165829655317709 / 281474976710656"
  "binary64 (28034907680381339 / 2251799813685248) = 7008726920095335 / 562949953421312"
  by (simp_all add: binary64_def exponent_def pow2_def round_even_def bits.simps)

text \<open>
  Claim C8, as the code has it. Let every addition and subtraction be rounded by a
  rounding symmetric in the sign, as binary64 arithmetic is. For a pair of strikes and a
  pair of premiums, on every grid, the Long Strangle curve is the point-by-point negation
  of the Short Strangle curve. The Long Straddle curve is the point-by-point negation of
  the Short Straddle curve whenever both premiums are representable and, at every grid
  price \<open>S\<close>, subtracting the rounded \<open>\<bar>S - K\<bar>\<close> from each premium is exact (as it
  is in exact arithmetic, and in binary64 at the premiums 0.25 and 2.5 of the example
  that follows).
\<close>

theorem long_short_symmetry_rounded:
  fixes rnd :: "real \<Rightarrow> real"
  assumes "\<forall>x. rnd (- x) = - rnd x"
    and "length strike_prices = 2" and "length premiums = 2"
  shows "(\<exists>c. straddle_strangle_branch rnd ''Short Strangle'' G strike_prices premiums payoff = Inr c
            \<and> straddle_strangle_branch rnd ''Long Strangle'' G strike_prices premiums payoff
                = Inr (map uminus c))
       \<and> (rnd (premiums ! 0) = premiums ! 0 \<and> rnd (premiums ! 1) = premiums ! 1
          \<and> (\<forall>S\<in>set G.
                rnd (premiums ! 0 - \<bar>rnd (S - strike_prices ! 0)\<bar>)
                  = premiums ! 0 - \<bar>rnd (S - strike_prices ! 0)\<bar>
              \<and> rnd (premiums ! 1 - \<bar>rnd (S - strike_prices ! 0)\<bar>)
                  = premiums ! 1 - \<bar>rnd (S - strike_prices ! 0)\<bar>)
          \<longrightarrow> (\<exists>c. straddle_strangle_branch rnd ''Short Straddle'' G strike_prices premiums payoff
                      = Inr c
                  \<and> straddle_strangle_branch rnd ''Long Straddle'' G strike_prices premiums payoff
                      = Inr (map uminus c)))"
proof (intro conjI impI)
  show "\<exists>c. straddle_strangle_branch rnd ''Short Strangle'' G strike_prices premiums payoff = Inr c
            \<and> straddle_strangle_branch rnd ''Long Strangle'' G strike_prices premiums payoff
                = Inr (map uminus c)"
    using assms(2,3) strangle_point [OF assms(1)]
    by (simp add: straddle_strangle_branch_def)
next
  assume exact: "rnd (premiums ! 0) = premiums ! 0 \<and> rnd (premiums ! 1) = premiums ! 1
          \<and> (\<forall>S\<in>set G.
                rnd (premiums ! 0 - \<bar>rnd (S - strike_prices ! 0)\<bar>)
                  = premiums ! 0 - \<bar>rnd (S - strike_prices ! 0)\<bar>
              \<and> rnd (premiums ! 1 - \<bar>rnd (S - strike_prices ! 0)\<bar>)
                  = premiums ! 1 - \<bar>rnd (S - strike_prices ! 0)\<bar>)"
  have "\<forall>S\<in>set G.
          rnd (rnd (max (rnd (S - strike_prices ! 0)) 0 - premiums ! 0)
               + rnd (max (rnd (strike_prices ! 0 - S)) 0 - premiums ! 1))
        = - rnd (rnd (min 0 (rnd (S - strike_prices ! 0)) + premiums ! 0)
                 + rnd (min 0 (rnd (strike_prices ! 0 - S)) + premiums ! 1))"
    using exact by (intro ballI straddle_point [OF assms(1)]) auto
  then show "\<exists>c. straddle_strangle_branch rnd ''Short Straddle'' G strike_prices premiums payoff
                      = Inr c
                  \<and> straddle_strangle_branch rnd ''Long Straddle'' G strike_prices premiums payoff
                      = Inr (map uminus c)"
    using assms(2,3) by (simp add: straddle_strangle_branch_def)
qed

theorem long_short_symmetry_rounded_witness:
  "(\<forall>x. binary64 (- x) = - binary64 x)
   \<and> straddle_strangle_branch binary64 ''Short Strangle'' [90, 120] [105, 95]
       [binary64 (1 / 5), binary64 (47 / 20)] []
     = Inr [- (5516909543528857 / 2251799813685248), - (7008726920095335 / 562949953421312)]
   \<and> straddle_strangle_branch binary64 ''Long Strangle'' [90, 120] [105, 95]
       [binary64 (1 / 5), binary64 (47 / 20)] []
     = Inr [5516909543528857 / 2251799813685248, 7008726920095335 / 562949953421312]
   \<and> straddle_strangle_branch binary64 ''Short Straddle'' [90, 105] [100, 100] [1 / 4, 5 / 2] []
     = Inr [- (29 / 4), - (9 / 4)]
   \<and> straddle_strangle_branch binary64 ''Long Straddle'' [90, 105] [100, 100] [1 / 4, 5 / 2] []
     = Inr [29 / 4, 9 / 4]"
proof -
  have odd: "\<forall>x. binary64 (- x) = - binary64 x"
    by (simp add: binary64_odd)
  have short_strangle:
    "straddle_strangle_branch binary64 ''Short Strangle'' [90, 120] [105, 95]
       [binary64 (1 / 5), binary64 (47 / 20)] []
     = Inr [- (5516909543528857 / 2251799813685248), - (7008726920095335 / 562949953421312)]"
    unfolding binary64_values
    by (simp add: straddle_strangle_branch_def binary64_odd binary64_steps binary64_witness_steps)
  have short_straddle:
    "straddle_strangle_branch binary64 ''Short Straddle'' [90, 105] [100, 100] [1 / 4, 5 / 2] []
     = Inr [- (29 / 4), - (9 / 4)]"
    by (simp add: straddle_strangle_branch_def binary64_odd binary64_steps binary64_witness_steps)
  have long_strangle:
    "straddle_strangle_branch binary64 ''Long Strangle'' [90, 120] [105, 95]
       [binary64 (1 / 5), binary64 (47 / 20)] []
     = Inr [5516909543528857 / 2251799813685248, 7008726920095335 / 562949953421312]"
    using long_short_symmetry_rounded [of binary64 "[105, 95]"
            "[binary64 (1 / 5), binary64 (47 / 20)]" "[90, 120]" "[]", OF odd]
    by (simp add: short_strangle)
  have long_straddle:
    "straddle_strangle_branch binary64 ''Long Straddle'' [90, 105] [100, 100] [1 / 4, 5 / 2] []
     = Inr [29 / 4, 9 / 4]"
    using long_short_symmetry_rounded [of binary64 "[100, 100]" "[1 / 4, 5 / 2]" "[90, 105]" "[]",
            OF odd]
    by (simp add: short_straddle binary64_odd binary64_steps binary64_witness_steps)
  show ?thesis
    using odd short_strangle long_strangle short_straddle long_straddle by blast
qed

text \<open>
  The stronger statement, Long Straddle equal to the negated Short Straddle for every
  price and every premiums pair, does not hold in binary64: at the price 90 with strike
  100 and the premiums 0.2 and 2.35 (the binary64 numbers nearest to them), the Long
  Straddle payoff is 7.45 and the Short Straddle payoff \<open>- 7.450000000000001\<close>, one unit
  in the last place apart.
\<close>

theorem straddle_rounding_counterexample:
  "straddle_strangle_branch binary64 ''Long Straddle'' [90] [100, 100]
       [binary64 (1 / 5), binary64 (47 / 20)] []
     = Inr [8387954305977549 / 1125899906842624]
   \<and> straddle_strangle_branch binary64 ''Short Straddle'' [90] [100, 100]
       [binary64 (1 / 5), binary64 (47 / 20)] []
     = Inr [- (8387954305977550 / 1125899906842624)]
   \<and> (8387954305977549 / 1125899906842624 :: real)
       \<noteq> - (- (8387954305977550 / 1125899906842624))"
  unfolding binary64_values
  by (simp add: straddle_strangle_branch_def binary64_odd binary64_steps)

text \<open>
  Claim C9. Monotonic tail law. A Long Call with strike \<open>K\<close> and premium \<open>p\<close>
  (one leg of kind Call) returns a curve over any grid: at every grid price at or below
  \<open>K\<close> the payoff is \<open>- p\<close>, and between two grid prices at or above \<open>K\<close> the
  payoff does not decrease as the price increases. Mirrored for a Long Put (one leg of
  kind Put): \<open>- p\<close> at every grid price at or above \<open>K\<close>, and not increasing in the
  price at or below \<open>K\<close>.
\<close>

theorem monotonic_tail_law:
  "(\<exists>c. calculate_payoff ''Long Call'' G [K] [p] [''Call''] avg = Inr c \<and> length c = length G
        \<and> (\<forall>i<length G. G ! i \<le> K \<longrightarrow> c ! i = - p)
        \<and> (\<forall>i<length G. \<forall>j<length G. K \<le> G ! i \<and> G ! i \<le> G ! j \<longrightarrow> c ! i \<le> c ! j))
   \<and> (\<exists>c. calculate_payoff ''Long Put'' G [K] [p] [''Put''] avg = Inr c \<and> length c = length G
        \<and> (\<forall>i<length G. K \<le> G ! i \<longrightarrow> c ! i = - p)
        \<and> (\<forall>i<length G. \<forall>j<length G. G ! i \<le> G ! j \<and> G ! j \<le> K \<longrightarrow> c ! j \<le> c ! i))"
proof (intro conjI)
  show "\<exists>c. calculate_payoff ''Long Call'' G [K] [p] [''Call''] avg = Inr c \<and> length c = length G
        \<and> (\<forall>i<length G. G ! i \<le> K \<longrightarrow> c ! i = - p)
        \<and> (\<forall>i<length G. \<forall>j<length G. K \<le> G ! i \<and> G ! i \<le> G ! j \<longrightarrow> c ! i \<le> c ! j)"
    unfolding long_call_curve by (intro exI [of _ "map (\<lambda>S. max (S - K) 0 - p) G"]) auto
  show "\<exists>c. calculate_payoff ''Long Put'' G [K] [p] [''Put''] avg = Inr c \<and> length c = length G
        \<and> (\<forall>i<length G. K \<le> G ! i \<longrightarrow> c ! i = - p)
        \<and> (\<forall>i<length G. \<forall>j<length G. G ! i \<le> G ! j \<and> G ! j \<le> K \<longrightarrow> c ! j \<le> c ! i)"
    unfolding long_put_curve by (intro exI [of _ "map (\<lambda>S. max (K - S) 0 - p) G"]) auto
qed

theorem monotonic_tail_law_witness:
  "(\<exists>c. calculate_payoff ''Long Call'' [90, 100, 105, 120] [100] [5] [''Call''] None = Inr c
        \<and> c ! 0 = - 5 \<and> c ! 1 = - 5 \<and> c ! 2 \<le> c ! 3)
   \<and> (\<exists>c. calculate_payoff ''Long Put'' [80, 95, 100, 120] [100] [5] [''Put''] None = Inr c
        \<and> c ! 2 = - 5 \<and> c ! 3 = - 5 \<and> c ! 1 \<le> c ! 0)"
proof (intro conjI)
  from monotonic_tail_law [of "[90, 100, 105, 120]" 100 5 None]
  obtain c where c: "calculate_payoff ''Long Call'' [90, 100, 105, 120] [100] [5] [''Call''] None = Inr c"
    and flat: "\<forall>i<length [90, 100, 105, 120 :: real]. [90, 100, 105, 120] ! i \<le> (100::real) \<longrightarrow> c ! i = - 5"
    and mono: "\<forall>i<length [90, 100, 105, 120 :: real]. \<forall>j<length [90, 100, 105, 120 :: real].
        (100::real) \<le> [90, 100, 105, 120] ! i \<and> [90, 100, 105, 120 :: real] ! i \<le> [90, 100, 105, 120] ! j
        \<longrightarrow> c ! i \<le> c ! j"
    by blast
  have "c ! 0 = - 5" using flat [rule_format, of 0] by simp
  moreover have "c ! 1 = - 5" using flat [rule_format, of 1] by simp
  moreover have "c ! 2 \<le> c ! 3" using mono [rule_format, of 2 3] by simp
  ultimately show "\<exists>c. calculate_payoff ''Long Call'' [90, 100, 105, 120] [100] [5] [''Call''] None = Inr c
        \<and> c ! 0 = - 5 \<and> c ! 1 = - 5 \<and> c ! 2 \<le> c ! 3"
    using c by blast
next
  from monotonic_tail_law [of "[80, 95, 100, 120]" 100 5 None]
  obtain c where c: "calculate_payoff ''Long Put'' [80, 95, 100, 120] [100] [5] [''Put''] None = Inr c"
    and flat: "\<forall>i<length [80, 95, 100, 120 :: real]. (100::real) \<le> [80, 95, 100, 120] ! i \<longrightarrow> c ! i = - 5"
    and mono: "\<forall>i<length [80, 95, 100, 120 :: real]. \<forall>j<length [80, 95, 100, 120 :: real].
        [80, 95, 100, 120 :: real] ! i \<le> [80, 95, 100, 120] ! j \<and> [80, 95, 100, 120] ! j \<le> (100::real)
        \<longrightarrow> c ! j \<le> c ! i"
    by blast
  have "c ! 2 = - 5" using flat [rule_format, of 2] by simp
  moreover have "c ! 3 = - 5" using flat [rule_format, of 3] by simp
  moreover have "c ! 1 \<le> c ! 0" using mono [rule_format, of 0 1] by simp
  ultimately show "\<exists>c. calculate_payoff ''Long Put'' [80, 95, 100, 120] [100] [5] [''Put''] None = Inr c
        \<and> c ! 2 = - 5 \<and> c ! 3 = - 5 \<and> c ! 1 \<le> c ! 0"
    using c by blast
qed

section \<open>The leg kinds and the strategy branches\<close>




end
